theory Spec2Isabelle
  imports Complex_Main "HOL-Library.Sublist"
begin

section \<open>Python values used by the program\<close>

text \<open>
  The exceptions that the code of \<^verbatim>\<open>main.py\<close> can raise by itself: its own
  \<^verbatim>\<open>assert\<close> statements (with their messages), and the errors of the Python
  operations it applies to values that may be absent or out of range.
\<close>

datatype py_error =
    AssertionError string
  | AttributeError
  | IndexError
  | TypeError
  | ValueError
  | EOFError

subsection \<open>\<^verbatim>\<open>range(start, stop, step)\<close>\<close>

text \<open>
  Python's \<^verbatim>\<open>range\<close> counts up from \<open>start\<close> while below \<open>stop\<close> for a positive
  step, counts down while above \<open>stop\<close> for a negative step, and raises
  \<^verbatim>\<open>ValueError\<close> for step zero.
\<close>

function range_up :: "int \<Rightarrow> int \<Rightarrow> int \<Rightarrow> int list" where
  "range_up x stop step =
     (if 0 < step \<and> x < stop then x # range_up (x + step) stop step else [])"
  by pat_completeness auto
termination
  by (relation "measure (\<lambda>(x, stop, step). nat (stop - x))") auto

function range_down :: "int \<Rightarrow> int \<Rightarrow> int \<Rightarrow> int list" where
  "range_down x stop step =
     (if step < 0 \<and> stop < x then x # range_down (x + step) stop step else [])"
  by pat_completeness auto
termination
  by (relation "measure (\<lambda>(x, stop, step). nat (x - stop))") auto

definition py_range :: "int \<Rightarrow> int \<Rightarrow> int \<Rightarrow> py_error + int list" where
  "py_range start stop step =
     (if step = 0 then Inl ValueError
      else if 0 < step then Inr (range_up start stop step)
      else Inr (range_down start stop step))"

subsection \<open>Slices \<^verbatim>\<open>l[a:b]\<close>\<close>

text \<open>
  A slice bound that is negative counts from the end of the list; every bound is then
  clamped into \<open>0 .. len(l)\<close>. A slice never raises; it is empty when the lower bound
  is not below the upper one.
\<close>

definition slice_bound :: "int \<Rightarrow> nat \<Rightarrow> nat" where
  "slice_bound i len =
     (if i < 0 then nat (max 0 (i + int len)) else min (nat i) len)"

definition py_slice :: "'a list \<Rightarrow> int \<Rightarrow> int \<Rightarrow> 'a list" where
  "py_slice l a b =
     (let lo = slice_bound a (length l); hi = slice_bound b (length l)
      in take (hi - lo) (drop lo l))"

subsection \<open>Substring test and lower case\<close>

text \<open>
  \<^verbatim>\<open>sub in s\<close> on strings: \<open>sub\<close> occurs in \<open>s\<close> as a contiguous block.
  \<^verbatim>\<open>s.lower()\<close> is modelled on ASCII: an upper-case ASCII letter becomes the
  lower-case one, every other character is kept. The script only compares the result
  with \<^verbatim>\<open>'y'\<close>.
\<close>

fun str_contains :: "string \<Rightarrow> string \<Rightarrow> bool" where
  "str_contains sub [] = (sub = [])"
| "str_contains sub (c # cs) = (prefix sub (c # cs) \<or> str_contains sub cs)"

definition lower_char :: "char \<Rightarrow> char" where
  "lower_char c =
     (let k = (of_char c :: nat) in if 65 \<le> k \<and> k \<le> 90 then char_of (k + 32) else c)"

definition lower :: "string \<Rightarrow> string" where
  "lower s = map lower_char s"

subsection \<open>Floating-point numbers\<close>

text \<open>
  The similarity scores and the threshold are Python floats that the program only
  compares (\<^verbatim>\<open>>=\<close>, \<^verbatim>\<open>== 0.0\<close>). A comparison of two finite floats is the
  comparison of the real numbers they denote, so a float is modelled by the real number
  it denotes. The literal \<^verbatim>\<open>0.95\<close> denotes the double nearest to \<open>95/100\<close>.
\<close>

definition default_similarity_threshold :: real where
  "default_similarity_threshold = 4278419646001971 / 4503599627370496"

section \<open>The outside world\<close>

text \<open>
  The Spotify client is represented by the answers it gives: \<open>search q limit type\<close>
  is the list \<^verbatim>\<open>["tracks"]["items"]\<close> (or \<^verbatim>\<open>["albums"]["items"]\<close>) of the reply to
  \<^verbatim>\<open>spotify.search\<close>, \<open>album_tracks album_id\<close> the list \<^verbatim>\<open>["items"]\<close> of the reply
  to \<^verbatim>\<open>spotify.album_tracks\<close>, and \<open>user_playlist_create user name description\<close>
  the \<^verbatim>\<open>"id"\<close> of the playlist that \<^verbatim>\<open>spotify.user_playlist_create\<close> returns. Of a
  track or album object the program reads \<^verbatim>\<open>"uri"\<close>, \<^verbatim>\<open>"name"\<close> and the
  \<^verbatim>\<open>"name"\<close> of the elements of \<^verbatim>\<open>"artists"\<close>. Faults of the service itself
  (network, authentication) are not part of the model.
\<close>

record catalog_item =
  item_uri :: string
  item_name :: string
  item_artists :: "string list"

record spotify_api =
  search :: "string \<Rightarrow> nat \<Rightarrow> string \<Rightarrow> catalog_item list"
  album_tracks :: "string \<Rightarrow> catalog_item list"
  user_playlist_create :: "string option \<Rightarrow> string \<Rightarrow> string \<Rightarrow> string"

text \<open>
  What the program does to the world is recorded in order: the prompts it prints when it
  reads a line, and the calls that change the user's Spotify account. The lines typed
  by the user are \<open>stdin\<close>. Progress messages and the pacing \<^verbatim>\<open>time.sleep\<close> are
  left out.
\<close>

datatype event =
    Prompt string
  | User_playlist_create "string option" string string
  | Playlist_add_items string "string list"

record world =
  stdin :: "string list"
  trace :: "event list"

definition py_input :: "string \<Rightarrow> world \<Rightarrow> py_error + (string \<times> world)" where
  "py_input prompt w =
     (case stdin w of
        [] \<Rightarrow> Inl EOFError
      | line # rest \<Rightarrow> Inr (line, w\<lparr>stdin := rest, trace := trace w @ [Prompt prompt]\<rparr>))"

section \<open>Utils\<close>

subsection \<open>\<^verbatim>\<open>Utils.str_similarity\<close>\<close>

text \<open>
  \<^verbatim>\<open>return SequenceMatcher(None, lhs_title, rhs_title).ratio()\<close>: the ratio of the
  standard library's matcher is a parameter of the model.
\<close>

definition str_similarity :: "(string \<Rightarrow> string \<Rightarrow> real) \<Rightarrow> string \<Rightarrow> string \<Rightarrow> real" where
  "str_similarity ratio lhs_title rhs_title = ratio lhs_title rhs_title"

subsection \<open>\<^verbatim>\<open>Utils.divide_chunks\<close>\<close>

text \<open>
  \<^verbatim>\<open>list_splitted = [l[x:x+n] for x in range(0, len(l), n)]\<close>
\<close>

definition divide_chunks :: "'a list \<Rightarrow> int \<Rightarrow> py_error + 'a list list" where
  "divide_chunks l n =
     (case py_range 0 (int (length l)) n of
        Inl e \<Rightarrow> Inl e
      | Inr xs \<Rightarrow> Inr (map (\<lambda>x. py_slice l x (x + n)) xs))"

section \<open>SpotifyAuthManager\<close>

subsection \<open>\<^verbatim>\<open>create_playlist\<close>\<close>

definition create_playlist ::
  "string option \<Rightarrow> spotify_api \<Rightarrow> string \<Rightarrow> string \<Rightarrow> world \<Rightarrow> string \<times> world" where
  "create_playlist USER_ID sp playlist_title description w =
     (let created_playlist_id = user_playlist_create sp USER_ID playlist_title description
      in (created_playlist_id,
          w\<lparr>trace := trace w @ [User_playlist_create USER_ID playlist_title description]\<rparr>))"

subsection \<open>\<^verbatim>\<open>add_tracks_to_playlist\<close>\<close>

definition playlist_add_items :: "string \<Rightarrow> string list \<Rightarrow> world \<Rightarrow> world" where
  "playlist_add_items playlist_id items w =
     w\<lparr>trace := trace w @ [Playlist_add_items playlist_id items]\<rparr>"

text \<open>
  \<^verbatim>\<open>if len(tracks) >= 99:\<close> the chunks of \<^verbatim>\<open>Utils.divide_chunks(tracks)\<close> (chunk
  size 99 by default) are added one call each, in order; \<^verbatim>\<open>else:\<close> one call adds
  \<^verbatim>\<open>tracks\<close>.
\<close>

definition add_tracks_to_playlist :: "string \<Rightarrow> string list \<Rightarrow> world \<Rightarrow> py_error + world" where
  "add_tracks_to_playlist playlist_id tracks w =
     (if 99 \<le> length tracks then
        (case divide_chunks tracks 99 of
           Inl e \<Rightarrow> Inl e
         | Inr chunks \<Rightarrow> Inr (foldl (\<lambda>w' chunk. playlist_add_items playlist_id chunk w') w chunks))
      else Inr (playlist_add_items playlist_id tracks w))"

subsection \<open>\<^verbatim>\<open>get_tracks_from_album\<close>\<close>

text \<open>
  \<^verbatim>\<open>album["artists"][0]\<close> raises \<^verbatim>\<open>IndexError\<close> on an album without artists.
  The search is made with the client's default limit of 10.
\<close>

definition get_tracks_from_album ::
  "spotify_api \<Rightarrow> (string \<Rightarrow> string \<Rightarrow> real) \<Rightarrow> string \<Rightarrow> string \<Rightarrow> real
     \<Rightarrow> py_error + string list" where
  "get_tracks_from_album sp ratio artist_name title similarity_threshold =
     (let query = artist_name @ '' '' @ title;
          albums = search sp query 10 ''album''
      in case albums of
           [] \<Rightarrow> Inr []
         | album # _ \<Rightarrow>
             let album_id = item_uri album
             in if similarity_threshold = 0
                then Inr (map item_uri (album_tracks sp album_id))
                else
                  let album_name = item_name album
                  in case item_artists album of
                       [] \<Rightarrow> Inl IndexError
                     | artist # _ \<Rightarrow>
                         let artist_similarity = str_similarity ratio artist artist_name;
                             title_similarity = str_similarity ratio title album_name
                         in if similarity_threshold \<le> artist_similarity
                               \<and> similarity_threshold \<le> title_similarity
                            then Inr (map item_uri (album_tracks sp album_id))
                            else Inr [])"

subsection \<open>\<^verbatim>\<open>get_track\<close>\<close>

definition get_track ::
  "spotify_api \<Rightarrow> (string \<Rightarrow> string \<Rightarrow> real) \<Rightarrow> string \<Rightarrow> string \<Rightarrow> real
     \<Rightarrow> py_error + string" where
  "get_track sp ratio artist_name title similarity_threshold =
     (let query = artist_name @ '' '' @ title;
          tracks = search sp query 2 ''track''
      in case tracks of
           [] \<Rightarrow> Inr ''''
         | track # _ \<Rightarrow>
             if similarity_threshold = 0
             then Inr (item_uri track)
             else
               (case item_artists track of
                  [] \<Rightarrow> Inl IndexError
                | artist # _ \<Rightarrow>
                    let track_name = item_name track;
                        artist_similarity = str_similarity ratio artist artist_name;
                        title_similarity = str_similarity ratio track_name title
                    in if similarity_threshold \<le> artist_similarity
                          \<and> similarity_threshold \<le> title_similarity
                       then Inr (item_uri track)
                       else Inr ''''))"

section \<open>RYMParser\<close>

text \<open>
  A saved page is represented by what \<^verbatim>\<open>soup.find_all("td", class_="main_entry")\<close>
  finds in it: one node for each entry cell, in document order. Of a node the program
  looks up the first link of class \<^verbatim>\<open>list_album\<close> and the first link of class
  \<^verbatim>\<open>list_artist\<close> (\<^verbatim>\<open>find\<close> returns \<^verbatim>\<open>None\<close> when there is none), and of a link
  its \<^verbatim>\<open>href\<close> attribute (\<^verbatim>\<open>get\<close> returns \<^verbatim>\<open>None\<close> when it is absent) and its
  text.
\<close>

record anchor =
  href :: "string option"
  anchor_text :: string

record entry_node =
  list_album :: "anchor option"
  list_artist :: "anchor option"

text \<open>The dictionary \<^verbatim>\<open>{"artist": ..., "title": ..., "type": ...}\<close> of a result.\<close>

record entry =
  entry_artist :: string
  entry_title :: string
  entry_type :: string

subsection \<open>\<^verbatim>\<open>parse_page\<close>\<close>

text \<open>
  \<^verbatim>\<open>urls = [item.find("a", class_="list_album").get("href") for item in list_items]\<close>:
  a node without such a link raises \<^verbatim>\<open>AttributeError\<close>.
\<close>

fun get_urls :: "entry_node list \<Rightarrow> py_error + string option list" where
  "get_urls [] = Inr []"
| "get_urls (item # list_items) =
     (case list_album item of
        None \<Rightarrow> Inl AttributeError
      | Some a \<Rightarrow>
          (case get_urls list_items of
             Inl e \<Rightarrow> Inl e
           | Inr urls \<Rightarrow> Inr (href a # urls)))"

text \<open>
  \<^verbatim>\<open>entries_simplified\<close>: the pair (artist, title) stands for the dictionary
  \<^verbatim>\<open>{"artist": ..., "title": ...}\<close>. The filter \<^verbatim>\<open>if entry is not None\<close> keeps
  every node, since \<^verbatim>\<open>find_all\<close> returns nodes only.
\<close>

fun simplify_entries :: "entry_node list \<Rightarrow> py_error + (string \<times> string) list" where
  "simplify_entries [] = Inr []"
| "simplify_entries (entry # list_items) =
     (case list_artist entry of
        None \<Rightarrow> Inl AttributeError
      | Some artist_link \<Rightarrow>
          (case list_album entry of
             None \<Rightarrow> Inl AttributeError
           | Some album_link \<Rightarrow>
               (case simplify_entries list_items of
                  Inl e \<Rightarrow> Inl e
                | Inr entries_simplified \<Rightarrow>
                    Inr ((anchor_text artist_link, anchor_text album_link) # entries_simplified))))"

text \<open>
  The loop \<^verbatim>\<open>for index, url in enumerate(urls)\<close>: the arguments are the URLs still to
  visit, \<^verbatim>\<open>entries_simplified\<close>, \<^verbatim>\<open>index\<close> and \<^verbatim>\<open>results\<close>. The test
  \<^verbatim>\<open>"/release/single/" in url\<close> raises \<^verbatim>\<open>TypeError\<close> when \<^verbatim>\<open>url\<close> is \<^verbatim>\<open>None\<close>,
  and \<^verbatim>\<open>entries_simplified[index]\<close> raises \<^verbatim>\<open>IndexError\<close> past the end.
\<close>

fun build_results ::
  "string option list \<Rightarrow> (string \<times> string) list \<Rightarrow> nat \<Rightarrow> entry list \<Rightarrow> py_error + entry list" where
  "build_results [] entries_simplified index results = Inr results"
| "build_results (url # urls) entries_simplified index results =
     (case url of
        None \<Rightarrow> Inl TypeError
      | Some u \<Rightarrow>
          let release_type = (if str_contains ''/release/single/'' u then ''track'' else ''album'')
          in if index < length entries_simplified
             then build_results urls entries_simplified (Suc index)
                    (results @ [\<lparr>entry_artist = fst (entries_simplified ! index),
                                  entry_title = snd (entries_simplified ! index),
                                  entry_type = release_type\<rparr>])
             else Inl IndexError)"

text \<open>
  The part of \<^verbatim>\<open>parse_page\<close> after the \<^verbatim>\<open>with\<close> block: the loop and the two
  assertions that follow it.
\<close>

definition classify_urls ::
  "string option list \<Rightarrow> (string \<times> string) list \<Rightarrow> py_error + entry list" where
  "classify_urls urls entries_simplified =
     (case build_results urls entries_simplified 0 [] of
        Inl e \<Rightarrow> Inl e
      | Inr results \<Rightarrow>
          if length urls \<noteq> length entries_simplified
          then Inl (AssertionError ''URL list and track info do not match!'')
          else if \<not> 0 < length results
          then Inl (AssertionError ''No results found.'')
          else Inr results)"

definition parse_page :: "entry_node list \<Rightarrow> py_error + entry list" where
  "parse_page list_items =
     (if \<not> 0 < length list_items then Inl (AssertionError ''No entries found.'')
      else
        (case get_urls list_items of
           Inl e \<Rightarrow> Inl e
         | Inr urls \<Rightarrow>
             if \<not> 0 < length urls then Inl (AssertionError ''No URLs found!'')
             else
               (case simplify_entries list_items of
                  Inl e \<Rightarrow> Inl e
                | Inr entries_simplified \<Rightarrow>
                    if \<not> 0 < length entries_simplified
                    then Inl (AssertionError ''Entries not simplified.'')
                    else classify_urls urls entries_simplified)))"

subsection \<open>\<^verbatim>\<open>get_entries\<close>\<close>

text \<open>
  \<open>pages\<close> lists the saved pages in the order of \<^verbatim>\<open>os.listdir\<close>. The loop extends
  \<^verbatim>\<open>results\<close> with the entries of each page and stops at the first page that fails.
\<close>

fun parse_pages :: "entry_node list list \<Rightarrow> entry list \<Rightarrow> py_error + entry list" where
  "parse_pages [] results = Inr results"
| "parse_pages (page # pages) results =
     (case parse_page page of
        Inl e \<Rightarrow> Inl e
      | Inr list_entries \<Rightarrow> parse_pages pages (results @ list_entries))"

definition get_entries :: "entry_node list list \<Rightarrow> py_error + entry list" where
  "get_entries pages =
     (if \<not> 0 < length pages then Inl (AssertionError ''No pages found.'')
      else parse_pages pages [])"

section \<open>The main program\<close>

text \<open>
  The loop over \<^verbatim>\<open>list_entries\<close> that fills \<^verbatim>\<open>to_be_added\<close>: an entry of type
  \<^verbatim>\<open>"album"\<close> extends the list with the album's tracks, any other entry appends the
  string that \<^verbatim>\<open>get_track\<close> returns. Both calls use the default threshold.
\<close>

fun fetch_uris ::
  "spotify_api \<Rightarrow> (string \<Rightarrow> string \<Rightarrow> real) \<Rightarrow> entry list \<Rightarrow> string list
     \<Rightarrow> py_error + string list" where
  "fetch_uris sp ratio [] to_be_added = Inr to_be_added"
| "fetch_uris sp ratio (list_entry # list_entries) to_be_added =
     (let artist_name = entry_artist list_entry;
          title = entry_title list_entry;
          type = entry_type list_entry
      in if type = ''album''
         then (case get_tracks_from_album sp ratio artist_name title default_similarity_threshold of
                 Inl e \<Rightarrow> Inl e
               | Inr album_items \<Rightarrow> fetch_uris sp ratio list_entries (to_be_added @ album_items))
         else (case get_track sp ratio artist_name title default_similarity_threshold of
                 Inl e \<Rightarrow> Inl e
               | Inr item \<Rightarrow> fetch_uris sp ratio list_entries (to_be_added @ [item])))"

text \<open>
  The script: two prompts, the pages, the loop, then \<^verbatim>\<open>create_playlist\<close> with the
  second answer as title and the default description, then
  \<^verbatim>\<open>add_tracks_to_playlist\<close> on the playlist just created.
\<close>

definition main ::
  "string option \<Rightarrow> spotify_api \<Rightarrow> (string \<Rightarrow> string \<Rightarrow> real) \<Rightarrow> entry_node list list \<Rightarrow> world
     \<Rightarrow> py_error + world" where
  "main USER_ID sp ratio pages w0 =
     (case py_input ''Add to existing playlist? (y/n)'' w0 of
        Inl e \<Rightarrow> Inl e
      | Inr (answer, w1) \<Rightarrow>
          let add_to_existing = lower answer
          in case (if add_to_existing = ''y''
                   then py_input ''Please enter the ID of the playlist you wish to add to: '' w1
                   else py_input ''Please enter a name for the playlist: '' w1) of
               Inl e \<Rightarrow> Inl e
             | Inr (playlist_name, w2) \<Rightarrow>
                 (case get_entries pages of
                    Inl e \<Rightarrow> Inl e
                  | Inr list_entries \<Rightarrow>
                      (case fetch_uris sp ratio list_entries [] of
                         Inl e \<Rightarrow> Inl e
                       | Inr to_be_added \<Rightarrow>
                           let (playlist, w3) =
                                 create_playlist USER_ID sp playlist_name
                                   ''Curated by yours truly.'' w2
                           in add_tracks_to_playlist playlist to_be_added w3)))"

section \<open>Example data\<close>

text \<open>
  A small catalog, three similarity functions and a saved page with two albums and one
  single, on which the theorems below are evaluated.
\<close>

definition band_song :: catalog_item where
  "band_song = \<lparr>item_uri = ''spotify:track:1'', item_name = ''Song'', item_artists = [''Band'']\<rparr>"

definition band_record :: catalog_item where
  "band_record =
     \<lparr>item_uri = ''spotify:album:7'', item_name = ''Record'', item_artists = [''Band'']\<rparr>"

definition record_tracks :: "catalog_item list" where
  "record_tracks =
     [\<lparr>item_uri = ''spotify:track:71'', item_name = ''One'', item_artists = [''Band'']\<rparr>,
      \<lparr>item_uri = ''spotify:track:72'', item_name = ''Two'', item_artists = [''Band'']\<rparr>,
      \<lparr>item_uri = ''spotify:track:73'', item_name = ''Three'', item_artists = [''Band'']\<rparr>]"

definition example_api :: spotify_api where
  "example_api =
     \<lparr>search = (\<lambda>q limit type. if type = ''track'' then [band_song] else [band_record]),
      album_tracks = (\<lambda>album_id. if album_id = ''spotify:album:7'' then record_tracks else []),
      user_playlist_create = (\<lambda>user name description. ''new_playlist_id'')\<rparr>"

definition silent_api :: spotify_api where
  "silent_api =
     \<lparr>search = (\<lambda>q limit type. []),
      album_tracks = (\<lambda>album_id. []),
      user_playlist_create = (\<lambda>user name description. ''new_playlist_id'')\<rparr>"

definition exact_ratio :: "string \<Rightarrow> string \<Rightarrow> real" where
  "exact_ratio lhs rhs = (if lhs = rhs then 1 else 0)"

definition close_artist_ratio :: "string \<Rightarrow> string \<Rightarrow> real" where
  "close_artist_ratio lhs rhs = (if lhs = ''Band'' \<and> rhs = ''Band'' then 0.99 else 0.80)"

definition unrelated_ratio :: "string \<Rightarrow> string \<Rightarrow> real" where
  "unrelated_ratio lhs rhs = 0"

definition fixture_page :: "entry_node list" where
  "fixture_page =
     [\<lparr>list_album = Some \<lparr>href = Some ''/release/album/band/record/'', anchor_text = ''Record''\<rparr>,
       list_artist = Some \<lparr>href = Some ''/artist/band'', anchor_text = ''Band''\<rparr>\<rparr>,
      \<lparr>list_album = Some \<lparr>href = Some ''/release/ep/other/tape/'', anchor_text = ''Tape''\<rparr>,
       list_artist = Some \<lparr>href = Some ''/artist/other'', anchor_text = ''Other''\<rparr>\<rparr>,
      \<lparr>list_album = Some \<lparr>href = Some ''/release/single/band/song/'', anchor_text = ''Song''\<rparr>,
       list_artist = Some \<lparr>href = Some ''/artist/band'', anchor_text = ''Band''\<rparr>\<rparr>]"

definition fixture_entries :: "entry list" where
  "fixture_entries =
     [\<lparr>entry_artist = ''Band'', entry_title = ''Record'', entry_type = ''album''\<rparr>,
      \<lparr>entry_artist = ''Other'', entry_title = ''Tape'', entry_type = ''album''\<rparr>,
      \<lparr>entry_artist = ''Band'', entry_title = ''Song'', entry_type = ''track''\<rparr>]"

section \<open>Facts about strings, ranges and slices\<close>

lemma str_contains_sublist: "str_contains sub s = sublist sub s"
  by (induction s) (auto simp: sublist_Cons_right)

lemma range_up_step:
  "0 < step \<Longrightarrow> x < stop \<Longrightarrow> range_up x stop step = x # range_up (x + step) stop step"
  by simp

lemma range_up_done: "\<not> x < stop \<Longrightarrow> range_up x stop step = []"
  by simp

lemma range_down_done: "\<not> stop < x \<Longrightarrow> range_down x stop step = []"
  by simp

declare range_up.simps [simp del] range_down.simps [simp del]

lemma slice_from_nonneg:
  assumes "0 \<le> x" "0 < n"
  shows "py_slice l x (x + n) = take (nat n) (drop (nat x) l)"
proof -
  have lo: "slice_bound x (length l) = min (nat x) (length l)"
    using assms by (simp add: slice_bound_def)
  have hi: "slice_bound (x + n) (length l) = min (nat x + nat n) (length l)"
    using assms by (simp add: slice_bound_def nat_add_distrib)
  show ?thesis
  proof (cases "nat x \<le> length l")
    case True
    then show ?thesis
      unfolding py_slice_def Let_def lo hi
      by (cases "nat x + nat n \<le> length l") (simp_all add: min_def)
  next
    case False
    then show ?thesis
      unfolding py_slice_def Let_def lo hi by simp
  qed
qed

lemma concat_chunks_from:
  "0 < n \<Longrightarrow> 0 \<le> x \<Longrightarrow>
   concat (map (\<lambda>x. py_slice l x (x + n)) (range_up x (int (length l)) n)) = drop (nat x) l"
proof (induction x "int (length l)" n rule: range_up.induct)
  case (1 x step)
  show ?case
  proof (cases "x < int (length l)")
    case True
    have "nat (x + step) = nat step + nat x"
      using 1(2,3) by (simp add: nat_add_distrib)
    then have "take (nat step) (drop (nat x) l) @ drop (nat (x + step)) l = drop (nat x) l"
      by (simp flip: drop_drop)
    then show ?thesis
      using True 1 by (simp add: range_up_step slice_from_nonneg)
  next
    case False
    then show ?thesis using 1(3) by (simp add: range_up_done)
  qed
qed

lemma range_up_lower: "y \<in> set (range_up x stop step) \<Longrightarrow> x \<le> y"
proof (induction x stop step rule: range_up.induct)
  case (1 x stop step)
  then show ?case
    by (cases "0 < step \<and> x < stop") (auto simp: range_up_step range_up.simps [of x stop step])
qed

lemma length_range_up:
  "0 < step \<Longrightarrow> length (range_up x stop step) = nat ((stop - x + step - 1) div step)"
proof (induction x stop step rule: range_up.induct)
  case (1 x stop step)
  show ?case
  proof (cases "x < stop")
    case True
    have "(stop - x + step - 1) div step = (stop - (x + step) + step - 1) div step + 1"
    proof -
      have "stop - x + step - 1 = (stop - (x + step) + step - 1) + step" by simp
      then show ?thesis using 1(2) by (metis div_add_self2 less_irrefl)
    qed
    moreover have "0 \<le> (stop - (x + step) + step - 1) div step"
      using True 1(2) by (simp add: pos_imp_zdiv_nonneg_iff)
    ultimately show ?thesis
      using True 1 by (simp add: range_up_step nat_add_distrib)
  next
    case False
    then have "(stop - x + step - 1) div step \<le> (step - 1) div step"
      using 1(2) by (intro zdiv_mono1) simp_all
    then have "(stop - x + step - 1) div step \<le> 0"
      using 1(2) by (simp add: div_pos_pos_trivial)
    then show ?thesis using False by (simp add: range_up_done)
  qed
qed

lemma full_before_last:
  "0 < n \<Longrightarrow> 0 \<le> x \<Longrightarrow> Suc i < length (range_up x (int (length l)) n) \<Longrightarrow>
   length (py_slice l (range_up x (int (length l)) n ! i) (range_up x (int (length l)) n ! i + n)) = nat n"
proof (induction x "int (length l)" n arbitrary: i rule: range_up.induct)
  case (1 x step)
  have lt: "x < int (length l)"
    using 1(4) by (cases "x < int (length l)") (simp_all add: range_up_done)
  have unf: "range_up x (int (length l)) step = x # range_up (x + step) (int (length l)) step"
    using lt 1(2) by (simp add: range_up_step)
  show ?case
  proof (cases i)
    case 0
    then have "range_up (x + step) (int (length l)) step \<noteq> []"
      using 1(4) unf by auto
    then have "x + step < int (length l)"
      by (cases "x + step < int (length l)") (simp_all add: range_up_done)
    then show ?thesis
      using 0 unf 1(2,3) by (simp add: slice_from_nonneg)
  next
    case (Suc j)
    then show ?thesis
      using 1(1) [of j] lt 1(2,3,4) unf by simp
  qed
qed

lemma ceiling_div_pos:
  assumes "0 < (n::int)"
  shows "\<lceil>real_of_int a / real_of_int n\<rceil> = (a + n - 1) div n"
proof -
  define z where "z = (a + n - 1) div n"
  define m where "m = (a + n - 1) mod n"
  have eq: "a + n - 1 = n * z + m"
    by (simp add: z_def m_def)
  have m: "0 \<le> m" "m < n"
    using assms by (simp_all add: m_def)
  have up: "a \<le> n * z" and lo: "n * z - n < a"
    using eq m by linarith+
  have "real_of_int a \<le> real_of_int (n * z)"
    using up by (simp only: of_int_le_iff)
  then have le: "real_of_int a / real_of_int n \<le> real_of_int z"
    using assms by (simp add: pos_divide_le_eq mult.commute)
  have "real_of_int (n * z - n) < real_of_int a"
    using lo by (simp only: of_int_less_iff)
  then have gt: "real_of_int z - 1 < real_of_int a / real_of_int n"
    using assms by (simp add: field_simps)
  show ?thesis
    unfolding z_def [symmetric] using le gt by (intro ceiling_unique) simp_all
qed


section \<open>The chunker\<close>

lemma divide_chunks_pos:
  "0 < n \<Longrightarrow>
   divide_chunks l n = Inr (map (\<lambda>x. py_slice l x (x + n)) (range_up 0 (int (length l)) n))"
  by (simp add: divide_chunks_def py_range_def)

text \<open>
  C5. For every list \<open>l\<close> and every chunk size \<open>n \<ge> 1\<close>, \<open>divide_chunks\<close> returns
  chunks whose concatenation is \<open>l\<close>; every chunk has at most \<open>n\<close> elements; there
  are \<open>ceil(len(l) / n)\<close> chunks; and every chunk but the last has exactly \<open>n\<close>
  elements.
\<close>

theorem divide_chunks_partition:
  assumes "1 \<le> n"
  shows "\<exists>chunks. divide_chunks l n = Inr chunks
           \<and> concat chunks = l
           \<and> (\<forall>c \<in> set chunks. length c \<le> nat n)
           \<and> int (length chunks) = \<lceil>real (length l) / real_of_int n\<rceil>
           \<and> (\<forall>i. Suc i < length chunks \<longrightarrow> length (chunks ! i) = nat n)"
proof -
  define xs where "xs = range_up 0 (int (length l)) n"
  define chunks where "chunks = map (\<lambda>x. py_slice l x (x + n)) xs"
  have pos: "0 < n" using assms by simp
  have res: "divide_chunks l n = Inr chunks"
    using pos by (simp add: divide_chunks_pos chunks_def xs_def)
  have cat: "concat chunks = l"
    using concat_chunks_from [of n 0 l] pos by (simp add: chunks_def xs_def)
  have bound: "\<forall>c \<in> set chunks. length c \<le> nat n"
  proof
    fix c assume "c \<in> set chunks"
    then obtain x where x: "x \<in> set xs" and c: "c = py_slice l x (x + n)"
      by (auto simp: chunks_def)
    have "0 \<le> x" using x range_up_lower [of x 0] by (simp add: xs_def)
    then show "length c \<le> nat n"
      using pos by (simp add: c slice_from_nonneg)
  qed
  have "length chunks = nat ((int (length l) + n - 1) div n)"
    using length_range_up [of n 0 "int (length l)"] pos by (simp add: chunks_def xs_def)
  moreover have "0 \<le> (int (length l) + n - 1) div n"
    using pos by (simp add: pos_imp_zdiv_nonneg_iff)
  ultimately have "int (length chunks) = (int (length l) + n - 1) div n"
    by simp
  then have count: "int (length chunks) = \<lceil>real (length l) / real_of_int n\<rceil>"
    using ceiling_div_pos [OF pos, of "int (length l)"] by simp
  have full: "\<forall>i. Suc i < length chunks \<longrightarrow> length (chunks ! i) = nat n"
  proof (intro allI impI)
    fix i assume i: "Suc i < length chunks"
    then have "Suc i < length (range_up 0 (int (length l)) n)"
      by (simp add: chunks_def xs_def)
    from full_before_last [OF pos _ this] i show "length (chunks ! i) = nat n"
      by (simp add: chunks_def xs_def)
  qed
  show ?thesis
    using res cat bound count full by blast
qed

theorem divide_chunks_partition_witness:
  "(1::int) \<le> 2
   \<and> (\<exists>chunks. divide_chunks ''abcde'' 2 = Inr chunks \<and> concat chunks = ''abcde''
          \<and> int (length chunks) = 3)
   \<and> divide_chunks ''abcde'' 2 = Inr [''ab'', ''cd'', ''e'']"
proof -
  have "\<exists>chunks. divide_chunks ''abcde'' 2 = Inr chunks \<and> concat chunks = ''abcde''
          \<and> int (length chunks) = 3"
    using divide_chunks_partition [of 2 "''abcde''"] by auto
  moreover have "divide_chunks ''abcde'' 2 = Inr [''ab'', ''cd'', ''e'']"
    by (simp add: divide_chunks_pos range_up_step range_up_done py_slice_def slice_bound_def)
  ultimately show ?thesis by simp
qed

text \<open>
  C3. A chunk size of zero raises \<open>ValueError\<close>. A negative chunk size does not: the
  range is empty and the result is the empty list of chunks, whatever \<open>l\<close> holds.
\<close>

theorem divide_chunks_nonpositive_size:
  "divide_chunks l 0 = Inl ValueError \<and> (n < 0 \<longrightarrow> divide_chunks l n = Inr [])"
  by (simp add: divide_chunks_def py_range_def range_down_done)

theorem divide_chunks_nonpositive_size_witness:
  "(- 3 :: int) < 0 \<and> divide_chunks [''a'', ''b''] 0 = Inl ValueError
   \<and> divide_chunks [''a'', ''b''] (- 3) = Inr []"
  using divide_chunks_nonpositive_size [of "[''a'', ''b'']" "- 3"] by simp

text \<open>
  With chunk size \<open>-1\<close> a list of three elements gives no error and no chunk: the
  three elements are dropped.
\<close>

theorem divide_chunks_negative_size_counterexample:
  "\<not> isl (divide_chunks [''a'', ''b'', ''c''] (- 1))
   \<and> divide_chunks [''a'', ''b'', ''c''] (- 1) = Inr []"
  by (simp add: divide_chunks_def py_range_def range_down_done)

section \<open>Adding tracks to a playlist\<close>

lemma slices_length_le:
  assumes "0 < n" "c \<in> set (map (\<lambda>x. py_slice l x (x + n)) (range_up 0 (int (length l)) n))"
  shows "length c \<le> nat n"
proof -
  obtain x where x: "x \<in> set (range_up 0 (int (length l)) n)" and c: "c = py_slice l x (x + n)"
    using assms(2) by auto
  have "0 \<le> x" using x range_up_lower [of x 0] by simp
  then show ?thesis
    using assms(1) by (simp add: c slice_from_nonneg)
qed

lemma foldl_playlist_add_items:
  "foldl (\<lambda>w' chunk. playlist_add_items playlist_id chunk w') w chunks =
   w\<lparr>trace := trace w @ map (Playlist_add_items playlist_id) chunks\<rparr>"
  by (induction chunks arbitrary: w) (simp_all add: playlist_add_items_def)

lemma add_tracks_chunked:
  "99 \<le> length tracks \<Longrightarrow>
   add_tracks_to_playlist playlist_id tracks w =
   Inr (w\<lparr>trace := trace w @ map (Playlist_add_items playlist_id)
          (map (\<lambda>x. py_slice tracks x (x + 99)) (range_up 0 (int (length tracks)) 99))\<rparr>)"
  by (simp add: add_tracks_to_playlist_def divide_chunks_pos foldl_playlist_add_items)

lemma add_tracks_unchunked:
  "length tracks < 99 \<Longrightarrow>
   add_tracks_to_playlist playlist_id tracks w =
   Inr (w\<lparr>trace := trace w @ [Playlist_add_items playlist_id tracks]\<rparr>)"
  by (simp add: add_tracks_to_playlist_def playlist_add_items_def)

lemma chunks_of_99:
  assumes "length l = 99"
  shows "map (\<lambda>x. py_slice l x (x + 99)) (range_up 0 (int (length l)) 99) = [l]"
proof -
  have "range_up 0 (int (length l)) 99 = [0]"
    using assms by (simp add: range_up_step range_up_done)
  moreover have "py_slice l 0 (0 + 99) = l"
    using assms by (subst slice_from_nonneg) simp_all
  ultimately show ?thesis by simp
qed

lemma chunks_of_150:
  assumes "length l = 150"
  shows "map (\<lambda>x. py_slice l x (x + 99)) (range_up 0 (int (length l)) 99) =
         [take 99 l, drop 99 l]"
proof -
  have "range_up 0 (int (length l)) 99 = [0, 99]"
    using assms by (simp add: range_up_step range_up_done)
  moreover have "py_slice l 0 (0 + 99) = take 99 l"
    by (subst slice_from_nonneg) simp_all
  moreover have "py_slice l 99 (99 + 99) = drop 99 l"
    using assms by (subst slice_from_nonneg) simp_all
  ultimately show ?thesis by simp
qed

text \<open>
  C6. The calls that \<open>add_tracks_to_playlist\<close> makes carry, in order, consecutive
  pieces of \<open>tracks\<close> of at most 99 identifiers each, all for the given playlist; with
  150 identifiers there are two calls, of 99 and of 51.
\<close>

theorem add_tracks_batches:
  "\<exists>batches. add_tracks_to_playlist playlist_id tracks w =
       Inr (w\<lparr>trace := trace w @ map (Playlist_add_items playlist_id) batches\<rparr>)
     \<and> concat batches = tracks
     \<and> (\<forall>b \<in> set batches. length b \<le> 99)
     \<and> (length tracks = 150 \<longrightarrow> batches = [take 99 tracks, drop 99 tracks]
          \<and> map length batches = [99, 51])"
proof (cases "99 \<le> length tracks")
  case True
  define batches where
    "batches = map (\<lambda>x. py_slice tracks x (x + 99)) (range_up 0 (int (length tracks)) 99)"
  have calls: "add_tracks_to_playlist playlist_id tracks w =
        Inr (w\<lparr>trace := trace w @ map (Playlist_add_items playlist_id) batches\<rparr>)"
    using True by (simp add: add_tracks_chunked batches_def)
  have cat: "concat batches = tracks"
    using concat_chunks_from [of 99 0 tracks] by (simp add: batches_def)
  have bound: "\<forall>b \<in> set batches. length b \<le> 99"
    using slices_length_le [of 99 _ tracks] by (auto simp: batches_def)
  have split: "length tracks = 150 \<longrightarrow> batches = [take 99 tracks, drop 99 tracks]
                   \<and> map length batches = [99, 51]"
  proof
    assume len: "length tracks = 150"
    then have "batches = [take 99 tracks, drop 99 tracks]"
      unfolding batches_def by (rule chunks_of_150)
    then show "batches = [take 99 tracks, drop 99 tracks] \<and> map length batches = [99, 51]"
      using len by simp
  qed
  from calls cat bound split show ?thesis
    by (intro exI [of _ batches] conjI)
next
  case False
  have calls: "add_tracks_to_playlist playlist_id tracks w =
        Inr (w\<lparr>trace := trace w @ map (Playlist_add_items playlist_id) [tracks]\<rparr>)"
    using False by (simp add: add_tracks_unchunked)
  have cat: "concat [tracks] = tracks" by simp
  have bound: "\<forall>b \<in> set [tracks]. length b \<le> 99" using False by simp
  have split: "length tracks = 150 \<longrightarrow> [tracks] = [take 99 tracks, drop 99 tracks]
                   \<and> map length [tracks] = [99, 51]"
    using False by simp
  from calls cat bound split show ?thesis
    by (intro exI [of _ "[tracks]"] conjI)
qed

theorem add_tracks_batches_witness:
  "length (replicate 150 ''t'') = 150
   \<and> add_tracks_to_playlist ''p'' (replicate 150 ''t'') \<lparr>stdin = [], trace = []\<rparr> =
       Inr \<lparr>stdin = [], trace = [Playlist_add_items ''p'' (replicate 99 ''t''),
                                  Playlist_add_items ''p'' (replicate 51 ''t'')]\<rparr>"
  using add_tracks_batches [of "''p''" "replicate 150 ''t''" "\<lparr>stdin = [], trace = []\<rparr>"]
  by auto

text \<open>
  C10. A list of fewer than 99 identifiers, the empty list included, is added by one
  call that carries the whole list. The chunks of \<open>divide_chunks\<close> are used from 99
  identifiers on, and a list of exactly 99 is one chunk, added by one call.
\<close>

theorem add_tracks_below_99_single_call:
  "(length tracks < 99 \<longrightarrow>
      add_tracks_to_playlist playlist_id tracks w =
        Inr (w\<lparr>trace := trace w @ [Playlist_add_items playlist_id tracks]\<rparr>))
   \<and> add_tracks_to_playlist playlist_id [] w =
        Inr (w\<lparr>trace := trace w @ [Playlist_add_items playlist_id []]\<rparr>)
   \<and> (99 \<le> length tracks \<longrightarrow>
        (\<exists>chunks. divide_chunks tracks 99 = Inr chunks
           \<and> add_tracks_to_playlist playlist_id tracks w =
               Inr (w\<lparr>trace := trace w @ map (Playlist_add_items playlist_id) chunks\<rparr>)))
   \<and> (length tracks = 99 \<longrightarrow>
        divide_chunks tracks 99 = Inr [tracks]
        \<and> add_tracks_to_playlist playlist_id tracks w =
            Inr (w\<lparr>trace := trace w @ [Playlist_add_items playlist_id tracks]\<rparr>))"
proof (intro conjI impI)
  assume "length tracks < 99"
  then show "add_tracks_to_playlist playlist_id tracks w =
        Inr (w\<lparr>trace := trace w @ [Playlist_add_items playlist_id tracks]\<rparr>)"
    by (rule add_tracks_unchunked)
next
  show "add_tracks_to_playlist playlist_id [] w =
        Inr (w\<lparr>trace := trace w @ [Playlist_add_items playlist_id []]\<rparr>)"
    by (simp add: add_tracks_unchunked)
next
  assume "99 \<le> length tracks"
  then show "\<exists>chunks. divide_chunks tracks 99 = Inr chunks
           \<and> add_tracks_to_playlist playlist_id tracks w =
               Inr (w\<lparr>trace := trace w @ map (Playlist_add_items playlist_id) chunks\<rparr>)"
    by (simp add: add_tracks_chunked divide_chunks_pos)
next
  assume len: "length tracks = 99"
  have "divide_chunks tracks 99 =
        Inr (map (\<lambda>x. py_slice tracks x (x + 99)) (range_up 0 (int (length tracks)) 99))"
    by (rule divide_chunks_pos) simp
  then show "divide_chunks tracks 99 = Inr [tracks]"
    by (simp only: chunks_of_99 [OF len])
next
  assume len: "length tracks = 99"
  then have "add_tracks_to_playlist playlist_id tracks w =
        Inr (w\<lparr>trace := trace w @ map (Playlist_add_items playlist_id)
          (map (\<lambda>x. py_slice tracks x (x + 99)) (range_up 0 (int (length tracks)) 99))\<rparr>)"
    by (intro add_tracks_chunked) simp
  then show "add_tracks_to_playlist playlist_id tracks w =
        Inr (w\<lparr>trace := trace w @ [Playlist_add_items playlist_id tracks]\<rparr>)"
    by (simp only: chunks_of_99 [OF len]) simp
qed

theorem add_tracks_below_99_single_call_witness:
  "length [''t1'', ''t2''] < 99
   \<and> add_tracks_to_playlist ''p'' [''t1'', ''t2''] \<lparr>stdin = [], trace = []\<rparr> =
       Inr \<lparr>stdin = [], trace = [Playlist_add_items ''p'' [''t1'', ''t2'']]\<rparr>
   \<and> length (replicate 99 ''t'') = 99
   \<and> add_tracks_to_playlist ''p'' (replicate 99 ''t'') \<lparr>stdin = [], trace = []\<rparr> =
       Inr \<lparr>stdin = [], trace = [Playlist_add_items ''p'' (replicate 99 ''t'')]\<rparr>"
  using add_tracks_below_99_single_call [of "[''t1'', ''t2'']" "''p''" "\<lparr>stdin = [], trace = []\<rparr>"]
    add_tracks_below_99_single_call [of "replicate 99 ''t''" "''p''" "\<lparr>stdin = [], trace = []\<rparr>"]
  by simp

section \<open>The catalog resolver\<close>

text \<open>
  C9. When the search returns no item, \<open>get_track\<close> returns the empty string and
  \<open>get_tracks_from_album\<close> the empty list, for every artist, title and threshold;
  neither raises.
\<close>

theorem no_search_results_empty:
  "(search sp (artist_name @ '' '' @ title) 2 ''track'' = [] \<longrightarrow>
      get_track sp ratio artist_name title similarity_threshold = Inr '''')
   \<and> (search sp (artist_name @ '' '' @ title) 10 ''album'' = [] \<longrightarrow>
      get_tracks_from_album sp ratio artist_name title similarity_threshold = Inr [])"
  by (simp add: get_track_def get_tracks_from_album_def)

theorem no_search_results_empty_witness:
  "search silent_api (''Band'' @ '' '' @ ''Song'') 2 ''track'' = []
   \<and> get_track silent_api exact_ratio ''Band'' ''Song'' default_similarity_threshold = Inr ''''
   \<and> search silent_api (''Band'' @ '' '' @ ''Song'') 10 ''album'' = []
   \<and> get_tracks_from_album silent_api exact_ratio ''Band'' ''Song'' default_similarity_threshold
       = Inr []"
  using no_search_results_empty
    [of silent_api "''Band''" "''Song''" exact_ratio default_similarity_threshold]
  by (simp add: silent_api_def)

text \<open>
  C8. With threshold \<open>0.0\<close>, \<open>get_track\<close> returns the identifier of the first
  search result and \<open>get_tracks_from_album\<close> all the tracks of the first album found,
  whatever the similarity of the names (the similarity function is arbitrary here, and
  the result's list of artists may even be empty).
\<close>

theorem zero_threshold_accepts_first:
  "(search sp (artist_name @ '' '' @ title) 2 ''track'' = track # more_tracks \<longrightarrow>
      get_track sp ratio artist_name title 0 = Inr (item_uri track))
   \<and> (search sp (artist_name @ '' '' @ title) 10 ''album'' = album # more_albums \<longrightarrow>
      get_tracks_from_album sp ratio artist_name title 0 =
        Inr (map item_uri (album_tracks sp (item_uri album))))"
  by (simp add: get_track_def get_tracks_from_album_def)

theorem zero_threshold_accepts_first_witness:
  "search example_api (''Nobody'' @ '' '' @ ''Nothing'') 2 ''track'' = band_song # []
   \<and> unrelated_ratio ''Band'' ''Nobody'' = 0 \<and> unrelated_ratio ''Song'' ''Nothing'' = 0
   \<and> get_track example_api unrelated_ratio ''Nobody'' ''Nothing'' 0 = Inr ''spotify:track:1''
   \<and> search example_api (''Nobody'' @ '' '' @ ''Nothing'') 10 ''album'' = band_record # []
   \<and> get_tracks_from_album example_api unrelated_ratio ''Nobody'' ''Nothing'' 0 =
       Inr [''spotify:track:71'', ''spotify:track:72'', ''spotify:track:73'']"
  using zero_threshold_accepts_first
    [of example_api "''Nobody''" "''Nothing''" band_song "[]" unrelated_ratio band_record "[]"]
  by (simp add: example_api_def unrelated_ratio_def band_song_def band_record_def
      record_tracks_def)

text \<open>
  C7. With a threshold in \<open>(0, 1]\<close>, the first search result is accepted exactly
  when the artist similarity and the title similarity both reach the threshold;
  otherwise the result is empty (the empty string for a track, the empty list for an
  album). Conversely, whatever the search returns, a non-empty result is the first
  search result and both of its similarities reach the threshold. The witness is the
  example of a threshold \<open>0.95\<close> with an artist similarity of \<open>0.99\<close> and a title
  similarity of \<open>0.80\<close>.
\<close>

theorem similarity_gate:
  assumes "0 < similarity_threshold" "similarity_threshold \<le> 1"
  shows
  "(search sp (artist_name @ '' '' @ title) 2 ''track'' = track # more_tracks
      \<and> item_artists track = artist # more_artists \<longrightarrow>
      get_track sp ratio artist_name title similarity_threshold =
        Inr (if similarity_threshold \<le> str_similarity ratio artist artist_name
                \<and> similarity_threshold \<le> str_similarity ratio (item_name track) title
             then item_uri track else ''''))
   \<and> (search sp (artist_name @ '' '' @ title) 10 ''album'' = album # more_albums
      \<and> item_artists album = album_artist # more_album_artists \<longrightarrow>
      get_tracks_from_album sp ratio artist_name title similarity_threshold =
        Inr (if similarity_threshold \<le> str_similarity ratio album_artist artist_name
                \<and> similarity_threshold \<le> str_similarity ratio title (item_name album)
             then map item_uri (album_tracks sp (item_uri album)) else []))
   \<and> (get_track sp ratio artist_name title similarity_threshold = Inr found \<and> found \<noteq> '''' \<longrightarrow>
        (\<exists>t ts a as. search sp (artist_name @ '' '' @ title) 2 ''track'' = t # ts
           \<and> item_artists t = a # as \<and> found = item_uri t
           \<and> similarity_threshold \<le> str_similarity ratio a artist_name
           \<and> similarity_threshold \<le> str_similarity ratio (item_name t) title))
   \<and> (get_tracks_from_album sp ratio artist_name title similarity_threshold = Inr found_tracks
        \<and> found_tracks \<noteq> [] \<longrightarrow>
        (\<exists>t ts a as. search sp (artist_name @ '' '' @ title) 10 ''album'' = t # ts
           \<and> item_artists t = a # as
           \<and> found_tracks = map item_uri (album_tracks sp (item_uri t))
           \<and> similarity_threshold \<le> str_similarity ratio a artist_name
           \<and> similarity_threshold \<le> str_similarity ratio title (item_name t)))"
proof (intro conjI impI)
  assume "search sp (artist_name @ '' '' @ title) 2 ''track'' = track # more_tracks
      \<and> item_artists track = artist # more_artists"
  then show "get_track sp ratio artist_name title similarity_threshold =
        Inr (if similarity_threshold \<le> str_similarity ratio artist artist_name
                \<and> similarity_threshold \<le> str_similarity ratio (item_name track) title
             then item_uri track else '''')"
    using assms by (simp add: get_track_def)
next
  assume "search sp (artist_name @ '' '' @ title) 10 ''album'' = album # more_albums
      \<and> item_artists album = album_artist # more_album_artists"
  then show "get_tracks_from_album sp ratio artist_name title similarity_threshold =
        Inr (if similarity_threshold \<le> str_similarity ratio album_artist artist_name
                \<and> similarity_threshold \<le> str_similarity ratio title (item_name album)
             then map item_uri (album_tracks sp (item_uri album)) else [])"
    using assms by (simp add: get_tracks_from_album_def)
next
  assume "get_track sp ratio artist_name title similarity_threshold = Inr found \<and> found \<noteq> ''''"
  then show "\<exists>t ts a as. search sp (artist_name @ '' '' @ title) 2 ''track'' = t # ts
           \<and> item_artists t = a # as \<and> found = item_uri t
           \<and> similarity_threshold \<le> str_similarity ratio a artist_name
           \<and> similarity_threshold \<le> str_similarity ratio (item_name t) title"
    using assms by (auto simp: get_track_def Let_def split: list.splits if_splits)
next
  assume "get_tracks_from_album sp ratio artist_name title similarity_threshold = Inr found_tracks
        \<and> found_tracks \<noteq> []"
  then show "\<exists>t ts a as. search sp (artist_name @ '' '' @ title) 10 ''album'' = t # ts
           \<and> item_artists t = a # as
           \<and> found_tracks = map item_uri (album_tracks sp (item_uri t))
           \<and> similarity_threshold \<le> str_similarity ratio a artist_name
           \<and> similarity_threshold \<le> str_similarity ratio title (item_name t)"
    using assms by (auto simp: get_tracks_from_album_def Let_def split: list.splits if_splits)
qed

theorem similarity_gate_witness:
  "0 < default_similarity_threshold \<and> default_similarity_threshold \<le> 1
   \<and> str_similarity close_artist_ratio ''Band'' ''Band'' = 0.99
   \<and> str_similarity close_artist_ratio ''Song'' ''Sonq'' = 0.80
   \<and> get_track example_api close_artist_ratio ''Band'' ''Sonq'' default_similarity_threshold
       = Inr ''''
   \<and> get_tracks_from_album example_api close_artist_ratio ''Band'' ''Sonq''
       default_similarity_threshold = Inr []
   \<and> get_track example_api exact_ratio ''Band'' ''Song'' default_similarity_threshold
       = Inr ''spotify:track:1''"
  using
    similarity_gate [of default_similarity_threshold example_api "''Band''" "''Sonq''"
      band_song "[]" "''Band''" "[]" close_artist_ratio band_record "[]" "''Band''" "[]"]
    similarity_gate [of default_similarity_threshold example_api "''Band''" "''Song''"
      band_song "[]" "''Band''" "[]" exact_ratio band_record "[]" "''Band''" "[]"]
  by (simp add: example_api_def close_artist_ratio_def exact_ratio_def band_song_def
      band_record_def str_similarity_def default_similarity_threshold_def)

section \<open>Collecting the identifiers\<close>

text \<open>
  C1. A track entry that finds no match does contribute an element: \<open>get_track\<close>
  returns the empty string and the loop appends it to \<open>to_be_added\<close>. An album entry
  that finds no match contributes nothing.
\<close>

theorem fetch_uris_unmatched_track_adds_empty_string:
  "fetch_uris silent_api exact_ratio
     [\<lparr>entry_artist = ''Band'', entry_title = ''Song'', entry_type = ''track''\<rparr>] [] = Inr ['''']
   \<and> fetch_uris silent_api exact_ratio
     [\<lparr>entry_artist = ''Band'', entry_title = ''Record'', entry_type = ''album''\<rparr>] [] = Inr []
   \<and> fetch_uris example_api exact_ratio fixture_entries [] =
       Inr [''spotify:track:71'', ''spotify:track:72'', ''spotify:track:73'', ''spotify:track:1'']
   \<and> fetch_uris example_api close_artist_ratio fixture_entries [] = Inr ['''']"
  by (simp add: silent_api_def example_api_def get_track_def get_tracks_from_album_def
      fixture_entries_def exact_ratio_def close_artist_ratio_def band_song_def band_record_def
      record_tracks_def str_similarity_def default_similarity_threshold_def)

section \<open>Parsing a page\<close>

lemma get_urls_rows:
  "get_urls list_items = Inr urls \<Longrightarrow>
   list_all2 (\<lambda>item url. \<exists>a. list_album item = Some a \<and> url = href a) list_items urls"
  by (induction list_items arbitrary: urls) (auto split: option.splits sum.splits)

lemma simplify_entries_rows:
  "simplify_entries list_items = Inr entries_simplified \<Longrightarrow>
   list_all2 (\<lambda>item p. \<exists>ar al. list_artist item = Some ar \<and> list_album item = Some al
                \<and> p = (anchor_text ar, anchor_text al)) list_items entries_simplified"
  by (induction list_items arbitrary: entries_simplified) (auto split: option.splits sum.splits)

lemma build_results_Inr:
  "build_results urls es index results = Inr res \<Longrightarrow>
   length urls \<le> length es - index
   \<and> length res = length results + length urls
   \<and> take (length results) res = results
   \<and> (\<forall>k < length urls. \<exists>u. urls ! k = Some u
        \<and> res ! (length results + k) =
            \<lparr>entry_artist = fst (es ! (index + k)), entry_title = snd (es ! (index + k)),
             entry_type = (if str_contains ''/release/single/'' u then ''track'' else ''album'')\<rparr>)"
proof (induction urls arbitrary: index results)
  case Nil
  then show ?case by simp
next
  case (Cons url urls)
  from Cons.prems obtain u where u: "url = Some u" and idx: "index < length es"
    and rec: "build_results urls es (Suc index)
               (results @ [\<lparr>entry_artist = fst (es ! index), entry_title = snd (es ! index),
                 entry_type = (if str_contains ''/release/single/'' u then ''track'' else ''album'')\<rparr>])
              = Inr res"
    by (auto simp: Let_def split: option.splits if_splits)
  note IH = Cons.IH [OF rec]
  have len: "length res = length results + length (url # urls)"
    using IH by simp
  have tk: "take (Suc (length results)) res =
        results @ [\<lparr>entry_artist = fst (es ! index), entry_title = snd (es ! index),
                 entry_type = (if str_contains ''/release/single/'' u then ''track'' else ''album'')\<rparr>]"
    using IH by simp
  have pre: "take (length results) res = results"
  proof -
    have "take (length results) (take (Suc (length results)) res) = results"
      by (simp only: tk) simp
    then show ?thesis by (simp add: min_def)
  qed
  have first: "res ! length results =
        \<lparr>entry_artist = fst (es ! index), entry_title = snd (es ! index),
                 entry_type = (if str_contains ''/release/single/'' u then ''track'' else ''album'')\<rparr>"
  proof -
    have "res ! length results = take (Suc (length results)) res ! length results"
      by simp
    then show ?thesis by (simp only: tk) simp
  qed
  have rows: "\<forall>k < length (url # urls). \<exists>u'. (url # urls) ! k = Some u'
        \<and> res ! (length results + k) =
            \<lparr>entry_artist = fst (es ! (index + k)), entry_title = snd (es ! (index + k)),
             entry_type = (if str_contains ''/release/single/'' u' then ''track'' else ''album'')\<rparr>"
  proof (intro allI impI)
    fix k assume k: "k < length (url # urls)"
    show "\<exists>u'. (url # urls) ! k = Some u'
        \<and> res ! (length results + k) =
            \<lparr>entry_artist = fst (es ! (index + k)), entry_title = snd (es ! (index + k)),
             entry_type = (if str_contains ''/release/single/'' u' then ''track'' else ''album'')\<rparr>"
    proof (cases k)
      case 0
      then show ?thesis using u first by simp
    next
      case (Suc j)
      then have "j < length urls" using k by simp
      then show ?thesis using IH Suc by auto
    qed
  qed
  have "length urls \<le> length es - Suc index"
    using IH by (rule conjunct1)
  then have fits: "length (url # urls) \<le> length es - index"
    using idx by simp
  show ?case
    using fits len pre rows by simp
qed

lemma classify_urls_Inr:
  assumes "classify_urls urls es = Inr results"
  shows "urls \<noteq> [] \<and> length urls = length es \<and> length results = length urls
   \<and> (\<forall>k < length urls. \<exists>u. urls ! k = Some u
        \<and> results ! k =
            \<lparr>entry_artist = fst (es ! k), entry_title = snd (es ! k),
             entry_type = (if str_contains ''/release/single/'' u then ''track'' else ''album'')\<rparr>)"
proof -
  from assms have b: "build_results urls es 0 [] = Inr results"
    and eq: "length urls = length es" and ne: "0 < length results"
    by (auto simp: classify_urls_def split: sum.splits if_splits)
  from build_results_Inr [OF b] eq ne show ?thesis by auto
qed

lemma classify_urls_mismatch:
  assumes "urls = [] \<or> es = [] \<or> length urls \<noteq> length es"
  shows "isl (classify_urls urls es)"
proof (rule ccontr)
  assume "\<not> isl (classify_urls urls es)"
  then obtain results where "classify_urls urls es = Inr results"
    by (cases "classify_urls urls es") auto
  from classify_urls_Inr [OF this] assms show False by auto
qed

text \<open>
  C4. \<open>parse_page\<close> fails on a page without entry nodes. The part of it that
  pairs the URLs with the (artist, title) pairs fails whenever there is no URL, no
  pair, or the two lists differ in length. When \<open>parse_page\<close> returns, none of
  these holds, and it returns one entry for every node of the page, in order, made of
  that node's artist text, title text and URL: there is no partial result.
\<close>

theorem parse_page_all_rows_or_error:
  "parse_page [] = Inl (AssertionError ''No entries found.'')
   \<and> (urls = [] \<or> entries_simplified = [] \<or> length urls \<noteq> length entries_simplified \<longrightarrow>
        isl (classify_urls urls entries_simplified))
   \<and> (parse_page list_items = Inr results \<longrightarrow>
        list_items \<noteq> []
        \<and> (\<exists>us es. get_urls list_items = Inr us \<and> simplify_entries list_items = Inr es
              \<and> us \<noteq> [] \<and> es \<noteq> [] \<and> length us = length es)
        \<and> length results = length list_items
        \<and> (\<forall>i < length list_items. \<exists>album_link artist_link url.
              list_album (list_items ! i) = Some album_link
              \<and> list_artist (list_items ! i) = Some artist_link
              \<and> href album_link = Some url
              \<and> results ! i =
                  \<lparr>entry_artist = anchor_text artist_link, entry_title = anchor_text album_link,
                   entry_type =
                     (if str_contains ''/release/single/'' url then ''track'' else ''album'')\<rparr>))"
proof (intro conjI impI)
  show "parse_page [] = Inl (AssertionError ''No entries found.'')"
    by (simp add: parse_page_def)
next
  assume "urls = [] \<or> entries_simplified = [] \<or> length urls \<noteq> length entries_simplified"
  then show "isl (classify_urls urls entries_simplified)"
    by (rule classify_urls_mismatch)
next
  assume ok: "parse_page list_items = Inr results"
  then obtain us es where ne: "list_items \<noteq> []"
    and us: "get_urls list_items = Inr us" and es: "simplify_entries list_items = Inr es"
    and us_ne: "us \<noteq> []" and es_ne: "es \<noteq> []"
    and cl: "classify_urls us es = Inr results"
    by (auto simp: parse_page_def split: sum.splits if_splits)
  note c = classify_urls_Inr [OF cl]
  note ru = get_urls_rows [OF us]
  note re = simplify_entries_rows [OF es]
  have lu: "length us = length list_items"
    using ru by (simp add: list_all2_lengthD)
  show "list_items \<noteq> []" by (rule ne)
  show "\<exists>us es. get_urls list_items = Inr us \<and> simplify_entries list_items = Inr es
              \<and> us \<noteq> [] \<and> es \<noteq> [] \<and> length us = length es"
    using us es us_ne es_ne c by blast
  show "length results = length list_items"
    using c lu by simp
  show "\<forall>i < length list_items. \<exists>album_link artist_link url.
              list_album (list_items ! i) = Some album_link
              \<and> list_artist (list_items ! i) = Some artist_link
              \<and> href album_link = Some url
              \<and> results ! i =
                  \<lparr>entry_artist = anchor_text artist_link, entry_title = anchor_text album_link,
                   entry_type =
                     (if str_contains ''/release/single/'' url then ''track'' else ''album'')\<rparr>"
  proof (intro allI impI)
    fix i assume i: "i < length list_items"
    from list_all2_nthD [OF ru i] obtain a where a: "list_album (list_items ! i) = Some a"
      and ua: "us ! i = href a" by auto
    from list_all2_nthD [OF re i] obtain ar al where ar: "list_artist (list_items ! i) = Some ar"
      and al: "list_album (list_items ! i) = Some al"
      and p: "es ! i = (anchor_text ar, anchor_text al)" by auto
    from c i lu obtain u where u: "us ! i = Some u"
      and r: "results ! i =
            \<lparr>entry_artist = fst (es ! i), entry_title = snd (es ! i),
             entry_type = (if str_contains ''/release/single/'' u then ''track'' else ''album'')\<rparr>"
      by auto
    from a al have "a = al" by simp
    with a ar ua u r p have row: "list_album (list_items ! i) = Some al
        \<and> list_artist (list_items ! i) = Some ar \<and> href al = Some u
        \<and> results ! i =
            \<lparr>entry_artist = anchor_text ar, entry_title = anchor_text al,
             entry_type = (if str_contains ''/release/single/'' u then ''track'' else ''album'')\<rparr>"
      by simp
    then show "\<exists>album_link artist_link url.
              list_album (list_items ! i) = Some album_link
              \<and> list_artist (list_items ! i) = Some artist_link
              \<and> href album_link = Some url
              \<and> results ! i =
                  \<lparr>entry_artist = anchor_text artist_link, entry_title = anchor_text album_link,
                   entry_type =
                     (if str_contains ''/release/single/'' url then ''track'' else ''album'')\<rparr>"
      by (intro exI [of _ al] exI [of _ ar] exI [of _ u])
  qed
qed

lemma parse_fixture_page: "parse_page fixture_page = Inr fixture_entries"
  by (simp add: parse_page_def classify_urls_def fixture_page_def fixture_entries_def)

theorem parse_page_all_rows_or_error_witness:
  "parse_page fixture_page = Inr fixture_entries
   \<and> length fixture_entries = length fixture_page
   \<and> map entry_type fixture_entries = [''album'', ''album'', ''track'']
   \<and> isl (classify_urls [Some ''/release/album/band/record/''] [])
   \<and> isl (parse_page [\<lparr>list_album = Some \<lparr>href = Some ''/release/album/band/record/'',
                                           anchor_text = ''Record''\<rparr>,
                        list_artist = None\<rparr>])"
proof -
  have "isl (classify_urls [Some ''/release/album/band/record/''] [])
        \<and> length fixture_entries = length fixture_page"
    using parse_page_all_rows_or_error
      [of "[Some ''/release/album/band/record/'']" "[]" fixture_page fixture_entries]
    by (simp add: parse_fixture_page)
  moreover have "map entry_type fixture_entries = [''album'', ''album'', ''track'']"
    by (simp add: fixture_entries_def)
  moreover have "isl (parse_page [\<lparr>list_album = Some \<lparr>href = Some ''/release/album/band/record/'',
                                           anchor_text = ''Record''\<rparr>,
                        list_artist = None\<rparr>])"
    by (simp add: parse_page_def)
  ultimately show ?thesis
    by (simp add: parse_fixture_page)
qed

section \<open>The script\<close>

lemma lower_y: "lower ''y'' = ''y''"
  by code_simp

lemma fetch_fixture_entries:
  "fetch_uris example_api exact_ratio fixture_entries [] =
     Inr [''spotify:track:71'', ''spotify:track:72'', ''spotify:track:73'', ''spotify:track:1'']"
  by (simp add: example_api_def get_track_def get_tracks_from_album_def
      fixture_entries_def exact_ratio_def band_song_def band_record_def
      record_tracks_def str_similarity_def default_similarity_threshold_def)

lemma new_playlist_id:
  "user_playlist_create example_api user playlist_title description = ''new_playlist_id''"
  by (simp add: example_api_def)

text \<open>
  C2. The user answers \<open>y\<close> and types the identifier of an existing playlist. The
  script still creates a new playlist, whose title is the identifier typed, and adds the
  tracks to the new playlist; nothing is added to the existing one.
\<close>

theorem main_existing_playlist_creates_new_one:
  "main (Some ''user'') example_api exact_ratio [fixture_page]
     \<lparr>stdin = [''y'', ''existing_playlist_id''], trace = []\<rparr> =
   Inr \<lparr>stdin = [],
        trace =
          [Prompt ''Add to existing playlist? (y/n)'',
           Prompt ''Please enter the ID of the playlist you wish to add to: '',
           User_playlist_create (Some ''user'') ''existing_playlist_id'' ''Curated by yours truly.'',
           Playlist_add_items ''new_playlist_id''
             [''spotify:track:71'', ''spotify:track:72'', ''spotify:track:73'',
              ''spotify:track:1'']]\<rparr>"
  by (simp add: main_def py_input_def lower_y get_entries_def parse_fixture_page
      fetch_fixture_entries create_playlist_def add_tracks_unchunked new_playlist_id)

end
